theory Spec2Isabelle
  imports Main
begin

section \<open>The DietPrompt engine (src/js/engine.ts)\<close>

text \<open>
  The engine compresses the prompt of an OpenAI completion request and counts tokens of
  the prompt before and after. A JavaScript string is a sequence of code units and its
  \<open>length\<close> counts them; the model writes it as a \<open>string\<close>, one \<open>char\<close> per code
  unit, so \<open>length\<close> counts the same thing. The code only ever compares code units with
  ASCII characters, splits and concatenates, so nothing below looks inside a code unit.
\<close>

subsection \<open>String and array primitives of the host language\<close>

text \<open>
  \<open>Canonicalize\<close> of a regular expression with the \<open>i\<close> flag (and no \<open>u\<close> flag): an
  ASCII lower-case letter is compared as its upper-case letter. A code unit outside ASCII
  never canonicalizes to an ASCII one, so against an ASCII pattern it is enough to leave it
  as it is.
\<close>

definition canonicalize :: "char \<Rightarrow> char" where
  "canonicalize c =
     (let n = (of_char c :: nat) in if 97 \<le> n \<and> n \<le> 122 then char_of (n - 32) else c)"

text \<open>Does the literal pattern match, ignoring case, at the start of the input?\<close>

fun matches_ci :: "string \<Rightarrow> string \<Rightarrow> bool" where
  "matches_ci [] cs = True"
| "matches_ci (p # ps) [] = False"
| "matches_ci (p # ps) (c # cs) = (canonicalize p = canonicalize c \<and> matches_ci ps cs)"

text \<open>
  \<open>prompt.replace(/do not/gi, "don't")\<close>: the global replace scans from the left; where
  the six-letter pattern matches it emits the replacement and resumes after the match,
  elsewhere it copies one code unit and moves on.
\<close>

definition DO_NOT :: string where
  "DO_NOT = ''do not''"

definition DONT :: string where
  "DONT = ''don'' @ [CHR 0x27] @ ''t''"

fun replace_do_not :: "string \<Rightarrow> string" where
  "replace_do_not [] = []"
| "replace_do_not (c # cs) =
     (if matches_ci DO_NOT (c # cs) then DONT @ replace_do_not (drop 5 cs)
      else c # replace_do_not cs)"

text \<open>\<open>Array.prototype.includes\<close> on an array of strings, asked about a string.\<close>

definition array_includes :: "string list \<Rightarrow> string \<Rightarrow> bool" where
  "array_includes xs x = (x \<in> set xs)"

text \<open>\<open>s.split("")\<close>: one one-character string per code unit; none for the empty string.\<close>

definition split_chars :: "string \<Rightarrow> string list" where
  "split_chars s = map (\<lambda>c. [c]) s"

text \<open>
  \<open>s.split(" ")\<close> for a one-character separator: the pieces between the separators, so
  the empty string gives one empty piece and every separator starts a new piece.
\<close>

fun split_sep :: "char \<Rightarrow> string \<Rightarrow> string list" where
  "split_sep sep [] = [[]]"
| "split_sep sep (c # cs) =
     (if c = sep then [] # split_sep sep cs
      else (case split_sep sep cs of
              [] \<Rightarrow> [[c]]
            | w # ws \<Rightarrow> (c # w) # ws))"

text \<open>\<open>xs.join(sep)\<close> on an array of strings.\<close>

fun join_js :: "string \<Rightarrow> string list \<Rightarrow> string" where
  "join_js sep [] = []"
| "join_js sep [w] = w"
| "join_js sep (w # v # ws) = w @ sep @ join_js sep (v # ws)"

subsection \<open>The default compression\<close>

definition PUNCTUATION :: "string list" where
  "PUNCTUATION = [''.'', '','', [CHR 0x27], [CHR 0x22], ''!'', ''?'', '';'', '':'', ''-'']"

text \<open>
  \<open>compressPromptDefault\<close>. The array \<open>stopwords.english\<close> comes from the module
  \<open>./data\<close>, which is not part of the sources at hand: it is the parameter \<open>sw\<close>.
\<close>

definition compressPromptDefault :: "string list \<Rightarrow> string \<Rightarrow> string" where
  "compressPromptDefault sw prompt =
     (let prompt = replace_do_not prompt;
          prompt = join_js [] (filter (\<lambda>char. \<not> array_includes PUNCTUATION char)
                                 (split_chars prompt));
          prompt = join_js '' '' (filter (\<lambda>word. \<not> array_includes sw word)
                                   (split_sep (CHR '' '') prompt))
      in prompt)"

subsection \<open>Values, requests and the store\<close>

text \<open>
  The fields of a request are untyped at run time: a prompt can be missing, \<open>null\<close>, a
  string, a number or an array.
\<close>

datatype js_value = JUndefined | JNull | JStr string | JNum int | JArr "js_value list"

fun truthy :: "js_value \<Rightarrow> bool" where
  "truthy JUndefined = False"
| "truthy JNull = False"
| "truthy (JStr s) = (s \<noteq> [])"
| "truthy (JNum n) = (n \<noteq> 0)"
| "truthy (JArr xs) = True"

fun typeof :: "js_value \<Rightarrow> string" where
  "typeof JUndefined = ''undefined''"
| "typeof JNull = ''object''"
| "typeof (JStr s) = ''string''"
| "typeof (JNum n) = ''number''"
| "typeof (JArr xs) = ''object''"

datatype error = Error string | TypeError

datatype CompressionType = NoCompression | DefaultCompression

record CreateCompletionRequest =
  model :: js_value
  prompt :: js_value

text \<open>
  Request objects are shared by reference: the caller, the completion object and both
  prompt views hold the same object. The store maps a reference to the object it names.
\<close>

type_synonym ref = nat

type_synonym store = "ref \<Rightarrow> CreateCompletionRequest"

subsection \<open>The tokenizer library\<close>

text \<open>
  A \<open>Tiktoken\<close> handle remembers the model it was made for and whether \<open>free()\<close> has been
  called on it. The library itself (\<open>@dqbd/tiktoken\<close>) is a parameter: which models it
  rejects, and what \<open>encode\<close> returns or throws for a handle and a text.
\<close>

record Tiktoken =
  tk_model :: js_value
  freed :: bool

record tiktoken_lib =
  model_error :: "js_value \<Rightarrow> error option"
  lib_encode :: "Tiktoken \<Rightarrow> js_value \<Rightarrow> error + nat list"

definition encoding_for_model :: "tiktoken_lib \<Rightarrow> js_value \<Rightarrow> error + Tiktoken" where
  "encoding_for_model lib m =
     (case model_error lib m of
        Some e \<Rightarrow> Inl e
      | None \<Rightarrow> Inr \<lparr>tk_model = m, freed = False\<rparr>)"

definition free :: "Tiktoken \<Rightarrow> Tiktoken" where
  "free tk = tk\<lparr>freed := True\<rparr>"

subsection \<open>BasePrompt\<close>

datatype 'c OpenAIApi = OpenAIApi 'c

record 'c BasePrompt =
  request :: ref
  tiktokenEncoding :: Tiktoken
  openai_bp :: "'c OpenAIApi"

definition new_BasePrompt ::
  "tiktoken_lib \<Rightarrow> store \<Rightarrow> ref \<Rightarrow> 'c OpenAIApi \<Rightarrow> error + 'c BasePrompt" where
  "new_BasePrompt lib h req api =
     (case encoding_for_model lib (model (h req)) of
        Inl e \<Rightarrow> Inl e
      | Inr tk \<Rightarrow> Inr \<lparr>request = req, tiktokenEncoding = tk, openai_bp = api\<rparr>)"

text \<open>\<open>this.request.prompt.length\<close>: reading a property of \<open>undefined\<close> or \<open>null\<close> throws.\<close>

definition estimatedPromptCost :: "store \<Rightarrow> 'c BasePrompt \<Rightarrow> error + js_value" where
  "estimatedPromptCost h this =
     (case prompt (h (request this)) of
        JUndefined \<Rightarrow> Inl TypeError
      | JNull \<Rightarrow> Inl TypeError
      | JStr s \<Rightarrow> Inr (JNum (int (length s)))
      | JNum n \<Rightarrow> Inr JUndefined
      | JArr xs \<Rightarrow> Inr (JNum (int (length xs))))"

text \<open>
  \<open>tokensCount\<close> and \<open>tokens\<close> encode with the handle made by the constructor and free it
  afterwards; when \<open>encode\<close> throws, the call is left before \<open>free()\<close>. Both return their
  result and the object as the call leaves it.
\<close>

definition tokensCount ::
  "tiktoken_lib \<Rightarrow> store \<Rightarrow> 'c BasePrompt \<Rightarrow> (error + nat) \<times> 'c BasePrompt" where
  "tokensCount lib h this =
     (case lib_encode lib (tiktokenEncoding this) (prompt (h (request this))) of
        Inl e \<Rightarrow> (Inl e, this)
      | Inr tokens \<Rightarrow>
          (Inr (length tokens), this\<lparr>tiktokenEncoding := free (tiktokenEncoding this)\<rparr>))"

definition tokens ::
  "tiktoken_lib \<Rightarrow> store \<Rightarrow> 'c BasePrompt \<Rightarrow> (error + nat list) \<times> 'c BasePrompt" where
  "tokens lib h this =
     (case lib_encode lib (tiktokenEncoding this) (prompt (h (request this))) of
        Inl e \<Rightarrow> (Inl e, this)
      | Inr tokens \<Rightarrow>
          (Inr tokens, this\<lparr>tiktokenEncoding := free (tiktokenEncoding this)\<rparr>))"

definition getPrompt :: "store \<Rightarrow> 'c BasePrompt \<Rightarrow> js_value" where
  "getPrompt h this = prompt (h (request this))"

subsection \<open>DietPromptCompletion\<close>

record 'c DietPromptCompletion =
  openAiConfiguration :: 'c
  openAICompletionRequest :: ref
  compressionType :: CompressionType
  originalPrompt :: "'c BasePrompt"
  dietPrompt :: "'c BasePrompt option"
  openai :: "'c OpenAIApi"

text \<open>
  \<open>compressPrompt\<close> switches on \<open>this.compressionType\<close>, passed here as \<open>ct\<close>; the switch
  has one case, and a call that falls through it returns \<open>undefined\<close>.
\<close>

definition compressPrompt :: "string list \<Rightarrow> CompressionType \<Rightarrow> string \<Rightarrow> js_value" where
  "compressPrompt sw ct p =
     (case ct of
        DefaultCompression \<Rightarrow> JStr (compressPromptDefault sw p)
      | NoCompression \<Rightarrow> JUndefined)"

text \<open>
  The constructor. It returns the new object or the error thrown, together with the
  store as the call leaves it: the assignment to \<open>openAICompletionRequest.prompt\<close> writes
  into the caller's request object. The \<open>typeof\<close> test narrows the prompt to a string,
  which the \<open>case\<close> on \<open>JStr\<close> hands to \<open>compressPrompt\<close>.
\<close>

definition new_DietPromptCompletion ::
  "tiktoken_lib \<Rightarrow> string list \<Rightarrow> 'c \<Rightarrow> ref \<Rightarrow> CompressionType \<Rightarrow> store
     \<Rightarrow> (error + 'c DietPromptCompletion) \<times> store" where
  "new_DietPromptCompletion lib sw cfg req ct h =
     (let api = OpenAIApi cfg in
      if prompt (h req) = JUndefined \<or> truthy JNull \<or>
         model (h req) = JUndefined \<or> truthy JNull
      then (Inl (Error ''Prompt and Model are required''), h)
      else if typeof (prompt (h req)) \<noteq> ''string''
      then (Inl (Error ''Prompt must be a string.''), h)
      else
        (case new_BasePrompt lib h req api of
           Inl e \<Rightarrow> (Inl e, h)
         | Inr original \<Rightarrow>
             if ct \<noteq> NoCompression then
               (case prompt (h req) of
                  JStr p \<Rightarrow>
                    (let diet = compressPrompt sw ct p;
                         h' = h(req := (h req)\<lparr>prompt := diet\<rparr>)
                     in case new_BasePrompt lib h' req api of
                          Inl e \<Rightarrow> (Inl e, h')
                        | Inr compressed \<Rightarrow>
                            (Inr \<lparr>openAiConfiguration = cfg, openAICompletionRequest = req,
                                  compressionType = ct, originalPrompt = original,
                                  dietPrompt = Some compressed, openai = api\<rparr>, h'))
                | _ \<Rightarrow> (Inl TypeError, h))
             else
               (Inr \<lparr>openAiConfiguration = cfg, openAICompletionRequest = req,
                     compressionType = ct, originalPrompt = original,
                     dietPrompt = None, openai = api\<rparr>, h)))"

definition originalRequest :: "'c DietPromptCompletion \<Rightarrow> ref" where
  "originalRequest this = openAICompletionRequest this"

subsection \<open>A stand-in library and data for running the model\<close>

text \<open>
  A tokenizer to run the model on concrete inputs: it knows one model, gives one token per
  space-separated piece (the piece's length), and throws for a freed handle or a text that
  is not a string.
\<close>

definition example_lib :: tiktoken_lib where
  "example_lib =
     \<lparr>model_error = (\<lambda>m. if m = JStr ''gpt-3.5-turbo'' then None
                          else Some (Error ''Invalid model'')),
      lib_encode = (\<lambda>tk text.
         if freed tk then Inl (Error ''null pointer passed to rust'')
         else (case text of
                 JStr s \<Rightarrow> Inr (map length (split_sep (CHR '' '') s))
               | _ \<Rightarrow> Inl TypeError))\<rparr>"

text \<open>
  Modelled from the spec: the module \<open>./data\<close> with the array \<open>stopwords.english\<close> is not
  among the sources. The spec names "this", "is", "an", "to" and "out" as entries that
  the documented example loses, and "the" as a stopword.
\<close>

definition example_stopwords :: "string list" where
  "example_stopwords = [''this'', ''is'', ''an'', ''to'', ''out'', ''the'']"

text \<open>The request of the example in the class's documentation, stored at reference 0.\<close>

definition example_request :: CreateCompletionRequest where
  "example_request =
     \<lparr>model = JStr ''gpt-3.5-turbo'',
      prompt = JStr ''Hey, this is an example request to test out DietPrompt.''\<rparr>"

definition example_store :: store where
  "example_store = (\<lambda>r. example_request)"

text \<open>A prompt view on that request, as the constructor of \<open>BasePrompt\<close> makes it.\<close>

definition example_prompt :: "unit BasePrompt" where
  "example_prompt =
     \<lparr>request = 0,
      tiktokenEncoding = \<lparr>tk_model = JStr ''gpt-3.5-turbo'', freed = False\<rparr>,
      openai_bp = OpenAIApi ()\<rparr>"

text \<open>Stores whose request has the given prompt, for the example model.\<close>

definition store_with_prompt :: "js_value \<Rightarrow> store" where
  "store_with_prompt v = (\<lambda>r. \<lparr>model = JStr ''gpt-3.5-turbo'', prompt = v\<rparr>)"

section \<open>Properties\<close>

subsection \<open>The string primitives\<close>

lemma matches_ci_length: "matches_ci p s \<Longrightarrow> length p \<le> length s"
  by (induction p s rule: matches_ci.induct) simp_all

lemma length_replace_do_not: "length (replace_do_not s) \<le> length s"
proof (induction s rule: replace_do_not.induct)
  case 1
  show ?case by simp
next
  case (2 c cs)
  show ?case
  proof (cases "matches_ci DO_NOT (c # cs)")
    case True
    from matches_ci_length [OF True] have "5 \<le> length cs"
      by (simp add: DO_NOT_def)
    moreover from 2(1) [OF True] have "length (replace_do_not (drop 5 cs)) \<le> length cs - 5"
      by simp
    ultimately show ?thesis using True
      by (simp add: DONT_def)
  next
    case False
    with 2(2) show ?thesis by simp
  qed
qed

lemma strip_punctuation_filter:
  "join_js [] (filter (\<lambda>char. \<not> array_includes PUNCTUATION char) (split_chars s)) =
     filter (\<lambda>c. \<not> array_includes PUNCTUATION [c]) s"
proof -
  have concat: "join_js [] ws = concat ws" for ws
    by (induction "[] :: string" ws rule: join_js.induct) simp_all
  show ?thesis
    unfolding concat split_chars_def by (induction s) simp_all
qed

lemma split_sep_not_Nil: "split_sep c s \<noteq> []"
  by (induction s) (simp_all split: list.splits)

lemma join_split_sep: "join_js [c] (split_sep c s) = s"
proof (induction s)
  case Nil
  show ?case by simp
next
  case (Cons a s)
  obtain w ws where ws: "split_sep c s = w # ws"
    using split_sep_not_Nil [of c s] by (cases "split_sep c s") auto
  with Cons show ?case
    by (cases ws) auto
qed

lemma length_join_js:
  "ws \<noteq> [] \<Longrightarrow> length (join_js sep ws) + length sep = sum_list (map (\<lambda>w. length w + length sep) ws)"
  by (induction sep ws rule: join_js.induct) simp_all

lemma sum_list_filter_le:
  "sum_list (map f (filter P ws)) \<le> (sum_list (map f ws) :: nat)"
  by (induction ws) simp_all

lemma length_join_filter: "length (join_js sep (filter P ws)) \<le> length (join_js sep ws)"
proof (cases "filter P ws = []")
  case True
  then show ?thesis by simp
next
  case False
  then have ne: "ws \<noteq> []" by auto
  have "length (join_js sep (filter P ws)) + length sep
          = sum_list (map (\<lambda>w. length w + length sep) (filter P ws))"
    by (rule length_join_js [OF False])
  also have "\<dots> \<le> sum_list (map (\<lambda>w. length w + length sep) ws)"
    by (rule sum_list_filter_le)
  also have "\<dots> = length (join_js sep ws) + length sep"
    by (rule length_join_js [OF ne, symmetric])
  finally show ?thesis by simp
qed

lemma length_drop_stopwords:
  "length (join_js '' '' (filter P (split_sep (CHR '' '') s))) \<le> length s"
  using length_join_filter [of "'' ''" P "split_sep (CHR '' '') s"]
  by (simp add: join_split_sep)

lemma set_join_js: "set (join_js sep ws) \<subseteq> set sep \<union> \<Union> (set ` set ws)"
  by (induction sep ws rule: join_js.induct) auto

lemma set_split_sep: "\<Union> (set ` set (split_sep c s)) \<subseteq> set s"
proof (induction s)
  case Nil
  show ?case by simp
next
  case (Cons a s)
  then show ?case
    by (cases "split_sep c s") auto
qed

lemma set_drop_stopwords:
  "set (join_js '' '' (filter P (split_sep (CHR '' '') s))) \<subseteq> insert (CHR '' '') (set s)"
proof -
  have "set (join_js '' '' (filter P (split_sep (CHR '' '') s)))
          \<subseteq> set '' '' \<union> \<Union> (set ` set (filter P (split_sep (CHR '' '') s)))"
    by (rule set_join_js)
  also have "\<dots> \<subseteq> set '' '' \<union> \<Union> (set ` set (split_sep (CHR '' '') s))"
    by auto
  also have "\<dots> \<subseteq> insert (CHR '' '') (set s)"
    using set_split_sep [of "CHR '' ''" s] by auto
  finally show ?thesis .
qed

lemma no_punctuation_left:
  assumes "array_includes PUNCTUATION [x]"
  shows "x \<notin> set (compressPromptDefault sw t)"
proof -
  let ?s = "filter (\<lambda>c. \<not> array_includes PUNCTUATION [c]) (replace_do_not t)"
  have "x \<noteq> CHR '' ''"
    using assms by (auto simp: array_includes_def PUNCTUATION_def)
  moreover have "x \<notin> set ?s"
    using assms by simp
  moreover have "set (compressPromptDefault sw t) \<subseteq> insert (CHR '' '') (set ?s)"
    unfolding compressPromptDefault_def Let_def strip_punctuation_filter
    by (rule set_drop_stopwords)
  ultimately show ?thesis by auto
qed

subsection \<open>The outcomes of construction\<close>

lemma typeof_string_iff: "typeof v = ''string'' \<longleftrightarrow> (\<exists>s. v = JStr s)"
  by (cases v) simp_all

lemma new_BasePrompt_ok:
  "model_error lib (model (h req)) = None \<Longrightarrow>
   new_BasePrompt lib h req api =
     Inr \<lparr>request = req,
          tiktokenEncoding = \<lparr>tk_model = model (h req), freed = False\<rparr>,
          openai_bp = api\<rparr>"
  by (simp add: new_BasePrompt_def encoding_for_model_def)

lemma new_BasePrompt_error:
  "model_error lib (model (h req)) = Some e \<Longrightarrow> new_BasePrompt lib h req api = Inl e"
  by (simp add: new_BasePrompt_def encoding_for_model_def)

lemma construct_missing:
  "prompt (h req) = JUndefined \<or> model (h req) = JUndefined \<Longrightarrow>
   new_DietPromptCompletion lib sw cfg req ct h =
     (Inl (Error ''Prompt and Model are required''), h)"
  by (auto simp: new_DietPromptCompletion_def Let_def)

lemma construct_not_string:
  "prompt (h req) \<noteq> JUndefined \<Longrightarrow> model (h req) \<noteq> JUndefined \<Longrightarrow>
   typeof (prompt (h req)) \<noteq> ''string'' \<Longrightarrow>
   new_DietPromptCompletion lib sw cfg req ct h = (Inl (Error ''Prompt must be a string.''), h)"
  by (simp add: new_DietPromptCompletion_def Let_def)

lemma construct_bad_model:
  "prompt (h req) = JStr p \<Longrightarrow> model (h req) \<noteq> JUndefined \<Longrightarrow>
   model_error lib (model (h req)) = Some e \<Longrightarrow>
   new_DietPromptCompletion lib sw cfg req ct h = (Inl e, h)"
  by (simp add: new_DietPromptCompletion_def Let_def new_BasePrompt_error)

lemma construct_none:
  assumes "prompt (h req) = JStr p" "model (h req) \<noteq> JUndefined"
    and "model_error lib (model (h req)) = None"
  shows "new_DietPromptCompletion lib sw cfg req NoCompression h =
     (Inr \<lparr>openAiConfiguration = cfg, openAICompletionRequest = req,
           compressionType = NoCompression,
           originalPrompt =
             \<lparr>request = req,
              tiktokenEncoding = \<lparr>tk_model = model (h req), freed = False\<rparr>,
              openai_bp = OpenAIApi cfg\<rparr>,
           dietPrompt = None, openai = OpenAIApi cfg\<rparr>, h)"
  using assms by (simp add: new_DietPromptCompletion_def Let_def new_BasePrompt_ok)

lemma construct_default:
  assumes "prompt (h req) = JStr p" "model (h req) \<noteq> JUndefined"
    and "model_error lib (model (h req)) = None"
  shows "new_DietPromptCompletion lib sw cfg req DefaultCompression h =
     (Inr \<lparr>openAiConfiguration = cfg, openAICompletionRequest = req,
           compressionType = DefaultCompression,
           originalPrompt =
             \<lparr>request = req,
              tiktokenEncoding = \<lparr>tk_model = model (h req), freed = False\<rparr>,
              openai_bp = OpenAIApi cfg\<rparr>,
           dietPrompt = Some
             \<lparr>request = req,
              tiktokenEncoding = \<lparr>tk_model = model (h req), freed = False\<rparr>,
              openai_bp = OpenAIApi cfg\<rparr>,
           openai = OpenAIApi cfg\<rparr>,
      h(req := (h req)\<lparr>prompt := JStr (compressPromptDefault sw p)\<rparr>))"
proof -
  let ?h' = "h(req := (h req)\<lparr>prompt := JStr (compressPromptDefault sw p)\<rparr>)"
  have "model (?h' req) = model (h req)" by simp
  with assms(3) have ok': "model_error lib (model (?h' req)) = None" by simp
  have "new_BasePrompt lib ?h' req (OpenAIApi cfg) =
      Inr \<lparr>request = req,
           tiktokenEncoding = \<lparr>tk_model = model (h req), freed = False\<rparr>,
           openai_bp = OpenAIApi cfg\<rparr>"
    using new_BasePrompt_ok [of lib ?h' req "OpenAIApi cfg"] ok' by simp
  with assms show ?thesis
    by (simp add: new_DietPromptCompletion_def Let_def compressPrompt_def new_BasePrompt_ok)
qed

lemma construct_ok_cases:
  assumes "new_DietPromptCompletion lib sw cfg req ct h = (Inr d, h')"
  obtains p where "prompt (h req) = JStr p" "model (h req) \<noteq> JUndefined"
    "model_error lib (model (h req)) = None"
proof -
  have m: "prompt (h req) \<noteq> JUndefined \<and> model (h req) \<noteq> JUndefined"
    using assms construct_missing [of h req lib sw cfg ct] by auto
  have "typeof (prompt (h req)) = ''string''"
    using assms m construct_not_string [of h req lib sw cfg ct] by auto
  then obtain p where p: "prompt (h req) = JStr p"
    by (auto simp: typeof_string_iff)
  have "model_error lib (model (h req)) = None"
  proof (cases "model_error lib (model (h req))")
    case None
    then show ?thesis .
  next
    case (Some e)
    with assms m p construct_bad_model [of h req p lib e sw cfg ct] show ?thesis by simp
  qed
  with p m that show thesis by blast
qed

subsection \<open>The examples, evaluated\<close>

lemma example_compressed:
  "compressPromptDefault example_stopwords
     ''Hey, this is an example request to test out DietPrompt.'' =
   ''Hey example request test DietPrompt''"
  by (simp add: compressPromptDefault_def DO_NOT_def canonicalize_def char_of_eq_iff
      split_chars_def array_includes_def PUNCTUATION_def example_stopwords_def)

lemma example_do_not_go:
  "compressPromptDefault example_stopwords ''Do not go'' = ''dont go''"
  by (simp add: compressPromptDefault_def DO_NOT_def DONT_def canonicalize_def char_of_eq_iff
      split_chars_def array_includes_def PUNCTUATION_def example_stopwords_def)

lemma example_tokens:
  "lib_encode example_lib (tiktokenEncoding example_prompt)
     (prompt (example_store (request example_prompt))) =
   Inr [4, 4, 2, 2, 7, 7, 2, 4, 3, 11]"
  by (simp add: example_lib_def example_prompt_def example_store_def example_request_def)

lemma example_construct_default:
  "new_DietPromptCompletion example_lib example_stopwords () 0 DefaultCompression example_store =
     (Inr \<lparr>openAiConfiguration = (), openAICompletionRequest = 0,
           compressionType = DefaultCompression,
           originalPrompt = example_prompt, dietPrompt = Some example_prompt,
           openai = OpenAIApi ()\<rparr>,
      example_store(0 := example_request
         \<lparr>prompt := JStr ''Hey example request test DietPrompt''\<rparr>))"
proof -
  have "prompt (example_store 0) =
      JStr ''Hey, this is an example request to test out DietPrompt.''"
    and "model (example_store 0) \<noteq> JUndefined"
    and "model_error example_lib (model (example_store 0)) = None"
    by (simp_all add: example_store_def example_request_def example_lib_def)
  with construct_default [where h = example_store and req = 0 and lib = example_lib
      and sw = example_stopwords and cfg = "()"
      and p = "''Hey, this is an example request to test out DietPrompt.''"]
  show ?thesis
    by (simp add: example_compressed example_prompt_def example_store_def example_request_def)
qed

lemma example_construct_none:
  "new_DietPromptCompletion example_lib example_stopwords () 0 NoCompression example_store =
     (Inr \<lparr>openAiConfiguration = (), openAICompletionRequest = 0,
           compressionType = NoCompression,
           originalPrompt = example_prompt, dietPrompt = None,
           openai = OpenAIApi ()\<rparr>,
      example_store)"
proof -
  have "prompt (example_store 0) =
      JStr ''Hey, this is an example request to test out DietPrompt.''"
    and "model (example_store 0) \<noteq> JUndefined"
    and "model_error example_lib (model (example_store 0)) = None"
    by (simp_all add: example_store_def example_request_def example_lib_def)
  with construct_none [where h = example_store and req = 0 and lib = example_lib
      and sw = example_stopwords and cfg = "()"
      and p = "''Hey, this is an example request to test out DietPrompt.''"]
  show ?thesis
    by (simp add: example_prompt_def example_store_def example_request_def)
qed

subsection \<open>The claims\<close>

text \<open>
  C1. What the constructor does to the original side under the default strategy: the
  original view holds the caller's request object, and the constructor overwrites that
  object's prompt with the compressed text. Before the overwrite the view reads the
  supplied prompt, afterwards it reads the compressed one.
\<close>

theorem original_side_reads_overwritten_prompt:
  assumes "new_DietPromptCompletion lib sw cfg req DefaultCompression h = (Inr d, h')"
    and "prompt (h req) = JStr p"
  shows "request (originalPrompt d) = req \<and> originalRequest d = req \<and>
         getPrompt h (originalPrompt d) = JStr p \<and>
         h' = h(req := (h req)\<lparr>prompt := JStr (compressPromptDefault sw p)\<rparr>) \<and>
         getPrompt h' (originalPrompt d) = JStr (compressPromptDefault sw p)"
proof -
  from assms(1) obtain q where q: "prompt (h req) = JStr q" "model (h req) \<noteq> JUndefined"
    "model_error lib (model (h req)) = None"
    by (rule construct_ok_cases)
  with assms(2) have "q = p" by simp
  with assms q construct_default [where h = h and req = req and p = q and lib = lib
      and sw = sw and cfg = cfg]
  show ?thesis
    by (auto simp: getPrompt_def originalRequest_def)
qed

theorem original_side_reads_overwritten_prompt_witness:
  "getPrompt
     (snd (new_DietPromptCompletion example_lib example_stopwords () 0
        DefaultCompression example_store))
     (originalPrompt (projr (fst (new_DietPromptCompletion example_lib example_stopwords () 0
        DefaultCompression example_store)))) =
   JStr ''Hey example request test DietPrompt'' \<and>
   prompt (example_store 0) = JStr ''Hey, this is an example request to test out DietPrompt.''"
proof -
  have p: "prompt (example_store 0) =
      JStr ''Hey, this is an example request to test out DietPrompt.''"
    by (simp add: example_store_def example_request_def)
  from original_side_reads_overwritten_prompt [OF example_construct_default p] p
  show ?thesis
    by (simp add: example_construct_default example_compressed getPrompt_def
        example_prompt_def)
qed

text \<open>
  C2. Under the strategy "none" no compression is applied to the prompt: \<open>compressPrompt\<close>
  has no case for "none" and returns \<open>undefined\<close> for every text, and the constructor does
  not call it, so construction leaves the store as it was, makes no compressed side, and
  the original side reads the supplied text unchanged.
\<close>

theorem none_leaves_prompt:
  assumes "new_DietPromptCompletion lib sw cfg req NoCompression h = (Inr d, h')"
    and "prompt (h req) = JStr t"
  shows "compressPrompt sw NoCompression t = JUndefined \<and> h' = h \<and> dietPrompt d = None \<and>
         getPrompt h' (originalPrompt d) = JStr t"
proof -
  from assms(1) obtain q where q: "prompt (h req) = JStr q" "model (h req) \<noteq> JUndefined"
    "model_error lib (model (h req)) = None"
    by (rule construct_ok_cases)
  with assms q construct_none [where h = h and req = req and p = q and lib = lib
      and sw = sw and cfg = cfg]
  show ?thesis
    by (auto simp: getPrompt_def compressPrompt_def)
qed

theorem none_leaves_prompt_witness:
  "getPrompt
     (snd (new_DietPromptCompletion example_lib example_stopwords () 0
        NoCompression example_store))
     (originalPrompt (projr (fst (new_DietPromptCompletion example_lib example_stopwords () 0
        NoCompression example_store)))) =
   JStr ''Hey, this is an example request to test out DietPrompt.'' \<and>
   snd (new_DietPromptCompletion example_lib example_stopwords () 0
        NoCompression example_store) = example_store"
proof -
  have p: "prompt (example_store 0) =
      JStr ''Hey, this is an example request to test out DietPrompt.''"
    by (simp add: example_store_def example_request_def)
  from none_leaves_prompt [OF example_construct_none p] show ?thesis
    by (simp add: example_construct_none)
qed

text \<open>
  Asked to compress "Do not go" under "none", \<open>compressPrompt\<close> returns \<open>undefined\<close>,
  not the text.
\<close>

theorem compressPrompt_none_counterexample:
  "compressPrompt example_stopwords NoCompression ''Do not go'' = JUndefined \<and>
   compressPrompt example_stopwords NoCompression ''Do not go'' \<noteq> JStr ''Do not go''"
  by (simp add: compressPrompt_def)

text \<open>
  C3. The life of the tokenizer handle. A call of \<open>tokensCount\<close> that succeeds leaves the
  object with a freed handle, and the next \<open>tokensCount\<close> or \<open>tokens\<close> on the object hands
  that freed handle to \<open>encode\<close>; a call in which \<open>encode\<close> throws leaves the object, and
  so the handle, as it was.
\<close>

theorem handle_freed_then_used:
  "(tokensCount lib h this = (Inr n, this1) \<longrightarrow>
      freed (tiktokenEncoding this1) \<and>
      fst (tokensCount lib h this1) =
        map_sum id length (lib_encode lib (tiktokenEncoding this1) (prompt (h (request this1)))) \<and>
      fst (tokens lib h this1) =
        lib_encode lib (tiktokenEncoding this1) (prompt (h (request this1)))) \<and>
   (fst (tokensCount lib h this) = Inl e \<longrightarrow> snd (tokensCount lib h this) = this)"
proof (intro conjI impI)
  assume "fst (tokensCount lib h this) = Inl e"
  then show "snd (tokensCount lib h this) = this"
    by (simp add: tokensCount_def split: sum.splits)
next
  assume "tokensCount lib h this = (Inr n, this1)"
  then show "freed (tiktokenEncoding this1)"
    by (auto simp: tokensCount_def free_def split: sum.splits)
next
  show "fst (tokensCount lib h this1) =
      map_sum id length (lib_encode lib (tiktokenEncoding this1) (prompt (h (request this1))))"
    by (simp add: tokensCount_def split: sum.split)
next
  show "fst (tokens lib h this1) =
      lib_encode lib (tiktokenEncoding this1) (prompt (h (request this1)))"
    by (simp add: tokens_def split: sum.split)
qed

theorem handle_freed_then_used_witness:
  "fst (tokensCount example_lib example_store example_prompt) = Inr 10 \<and>
   freed (tiktokenEncoding (snd (tokensCount example_lib example_store example_prompt))) \<and>
   fst (tokensCount example_lib example_store
          (snd (tokensCount example_lib example_store example_prompt))) =
     Inl (Error ''null pointer passed to rust'') \<and>
   tokensCount example_lib (store_with_prompt (JNum 123)) example_prompt =
     (Inl TypeError, example_prompt)"
proof -
  let ?this1 = "example_prompt\<lparr>tiktokenEncoding := free (tiktokenEncoding example_prompt)\<rparr>"
  have first: "tokensCount example_lib example_store example_prompt = (Inr 10, ?this1)"
    by (simp add: tokensCount_def example_tokens)
  have freed: "lib_encode example_lib (tiktokenEncoding ?this1)
      (prompt (example_store (request ?this1))) = Inl (Error ''null pointer passed to rust'')"
    by (simp add: example_lib_def free_def)
  have failing: "fst (tokensCount example_lib (store_with_prompt (JNum 123)) example_prompt) =
      Inl TypeError"
    by (simp add: tokensCount_def example_lib_def example_prompt_def store_with_prompt_def)
  from handle_freed_then_used [of example_lib example_store example_prompt 10 ?this1 TypeError]
    handle_freed_then_used [of example_lib "store_with_prompt (JNum 123)" example_prompt
      10 ?this1 TypeError]
    first freed failing
  show ?thesis
    by (simp add: prod_eq_iff)
qed

text \<open>
  C4. The default compression never lengthens its input: for every text (the empty one
  included) and every stopword array, the output has at most as many code units as the
  input.
\<close>

theorem compressPromptDefault_length_le:
  "length (compressPromptDefault sw t) \<le> length t"
proof -
  let ?s = "filter (\<lambda>c. \<not> array_includes PUNCTUATION [c]) (replace_do_not t)"
  have "length (compressPromptDefault sw t) \<le> length ?s"
    unfolding compressPromptDefault_def Let_def strip_punctuation_filter
    by (rule length_drop_stopwords)
  also have "\<dots> \<le> length (replace_do_not t)"
    by (rule length_filter_le)
  also have "\<dots> \<le> length t"
    by (rule length_replace_do_not)
  finally show ?thesis .
qed

theorem compressPromptDefault_length_le_witness:
  "length (compressPromptDefault example_stopwords ''Do not go'') = 7 \<and>
   length (compressPromptDefault example_stopwords ''Do not go'') \<le> length ''Do not go''"
  using compressPromptDefault_length_le [of example_stopwords "''Do not go''"]
  by (simp add: example_do_not_go)

text \<open>
  C5. After a successful construction the object carries the strategy it was given, and
  its compressed side is present exactly when that strategy is not "none".
\<close>

theorem dietPrompt_present_iff:
  assumes "new_DietPromptCompletion lib sw cfg req ct h = (Inr d, h')"
  shows "compressionType d = ct \<and> (dietPrompt d \<noteq> None) = (ct \<noteq> NoCompression)"
proof -
  from assms obtain p where p: "prompt (h req) = JStr p" "model (h req) \<noteq> JUndefined"
    "model_error lib (model (h req)) = None"
    by (rule construct_ok_cases)
  show ?thesis
  proof (cases ct)
    case NoCompression
    with assms p construct_none [where h = h and req = req and p = p and lib = lib
        and sw = sw and cfg = cfg]
    show ?thesis by auto
  next
    case DefaultCompression
    with assms p construct_default [where h = h and req = req and p = p and lib = lib
        and sw = sw and cfg = cfg]
    show ?thesis by auto
  qed
qed

theorem dietPrompt_present_iff_witness:
  "dietPrompt (projr (fst (new_DietPromptCompletion example_lib example_stopwords () 0
      DefaultCompression example_store))) = Some example_prompt \<and>
   dietPrompt (projr (fst (new_DietPromptCompletion example_lib example_stopwords () 0
      NoCompression example_store))) = None"
  using dietPrompt_present_iff [OF example_construct_default]
    dietPrompt_present_iff [OF example_construct_none]
  by (simp add: example_construct_default example_construct_none)

text \<open>
  C6. What construction checks, in the order of the code, for a prompt and a model that
  are not \<open>null\<close>. It throws "Prompt and Model are required" when the prompt or the model
  is \<open>undefined\<close>; otherwise "Prompt must be a string." when the prompt is not a string;
  otherwise the tokenizer library's error when the library rejects the model; and in
  every remaining case, the empty prompt included, it succeeds. A failed check leaves the
  store as it was.
\<close>

theorem constructor_outcomes:
  "(prompt (h req) = JUndefined \<or> model (h req) = JUndefined \<longrightarrow>
      new_DietPromptCompletion lib sw cfg req ct h =
        (Inl (Error ''Prompt and Model are required''), h)) \<and>
   (prompt (h req) \<noteq> JUndefined \<and> prompt (h req) \<noteq> JNull \<and>
    model (h req) \<noteq> JUndefined \<and> model (h req) \<noteq> JNull \<and>
    typeof (prompt (h req)) \<noteq> ''string'' \<longrightarrow>
      new_DietPromptCompletion lib sw cfg req ct h =
        (Inl (Error ''Prompt must be a string.''), h)) \<and>
   (prompt (h req) = JStr p \<and> model (h req) \<noteq> JUndefined \<and> model (h req) \<noteq> JNull \<and>
    model_error lib (model (h req)) = Some e \<longrightarrow>
      new_DietPromptCompletion lib sw cfg req ct h = (Inl e, h)) \<and>
   (prompt (h req) = JStr p \<and> model (h req) \<noteq> JUndefined \<and> model (h req) \<noteq> JNull \<and>
    model_error lib (model (h req)) = None \<longrightarrow>
      (\<exists>d h'. new_DietPromptCompletion lib sw cfg req ct h = (Inr d, h')))"
proof (intro conjI impI)
  assume "prompt (h req) = JUndefined \<or> model (h req) = JUndefined"
  then show "new_DietPromptCompletion lib sw cfg req ct h =
      (Inl (Error ''Prompt and Model are required''), h)"
    by (rule construct_missing)
next
  assume "prompt (h req) \<noteq> JUndefined \<and> prompt (h req) \<noteq> JNull \<and>
    model (h req) \<noteq> JUndefined \<and> model (h req) \<noteq> JNull \<and>
    typeof (prompt (h req)) \<noteq> ''string''"
  then show "new_DietPromptCompletion lib sw cfg req ct h =
      (Inl (Error ''Prompt must be a string.''), h)"
    by (simp add: construct_not_string)
next
  assume "prompt (h req) = JStr p \<and> model (h req) \<noteq> JUndefined \<and> model (h req) \<noteq> JNull \<and>
    model_error lib (model (h req)) = Some e"
  then show "new_DietPromptCompletion lib sw cfg req ct h = (Inl e, h)"
    by (simp add: construct_bad_model [where p = p])
next
  assume a: "prompt (h req) = JStr p \<and> model (h req) \<noteq> JUndefined \<and>
    model (h req) \<noteq> JNull \<and> model_error lib (model (h req)) = None"
  show "\<exists>d h'. new_DietPromptCompletion lib sw cfg req ct h = (Inr d, h')"
  proof (cases ct)
    case NoCompression
    with a construct_none [where h = h and req = req and p = p and lib = lib
        and sw = sw and cfg = cfg]
    show ?thesis by simp
  next
    case DefaultCompression
    with a construct_default [where h = h and req = req and p = p and lib = lib
        and sw = sw and cfg = cfg]
    show ?thesis by simp
  qed
qed

theorem constructor_outcomes_witness:
  "fst (new_DietPromptCompletion example_lib example_stopwords () 0 DefaultCompression
          (store_with_prompt JUndefined)) = Inl (Error ''Prompt and Model are required'') \<and>
   fst (new_DietPromptCompletion example_lib example_stopwords () 0 DefaultCompression
          (store_with_prompt (JNum 123))) = Inl (Error ''Prompt must be a string.'') \<and>
   fst (new_DietPromptCompletion example_lib example_stopwords () 0 DefaultCompression
          (\<lambda>r. \<lparr>model = JStr ''no-such-model'', prompt = JStr ''Do not go''\<rparr>)) =
     Inl (Error ''Invalid model'') \<and>
   (\<exists>d h'. new_DietPromptCompletion example_lib example_stopwords () 0 DefaultCompression
          (store_with_prompt (JStr ''Do not go'')) = (Inr d, h'))"
proof -
  let ?new = "new_DietPromptCompletion example_lib example_stopwords () 0 DefaultCompression"
  have "fst (?new (store_with_prompt JUndefined)) = Inl (Error ''Prompt and Model are required'')"
    using constructor_outcomes [of "store_with_prompt JUndefined" 0 example_lib
        example_stopwords "()" DefaultCompression]
    by (simp add: store_with_prompt_def)
  moreover have "fst (?new (store_with_prompt (JNum 123))) =
      Inl (Error ''Prompt must be a string.'')"
    using constructor_outcomes [of "store_with_prompt (JNum 123)" 0 example_lib
        example_stopwords "()" DefaultCompression]
    by (simp add: store_with_prompt_def)
  moreover have "fst (?new (\<lambda>r. \<lparr>model = JStr ''no-such-model'', prompt = JStr ''Do not go''\<rparr>)) =
      Inl (Error ''Invalid model'')"
    using constructor_outcomes [where
        h = "\<lambda>r. \<lparr>model = JStr ''no-such-model'', prompt = JStr ''Do not go''\<rparr>"
        and req = 0 and p = "''Do not go''" and lib = example_lib
        and e = "Error ''Invalid model''" and sw = example_stopwords and cfg = "()"
        and ct = DefaultCompression]
    by (simp add: example_lib_def)
  moreover have "\<exists>d h'. ?new (store_with_prompt (JStr ''Do not go'')) = (Inr d, h')"
    using constructor_outcomes [where h = "store_with_prompt (JStr ''Do not go'')"
        and req = 0 and p = "''Do not go''" and lib = example_lib
        and sw = example_stopwords and cfg = "()" and ct = DefaultCompression]
    by (simp add: store_with_prompt_def example_lib_def)
  ultimately show ?thesis by blast
qed

text \<open>
  The empty prompt passes both checks: with a model the library knows, construction
  succeeds and builds both sides.
\<close>

theorem empty_prompt_counterexample:
  "fst (new_DietPromptCompletion example_lib example_stopwords () 0 DefaultCompression
          (store_with_prompt (JStr []))) =
     Inr \<lparr>openAiConfiguration = (), openAICompletionRequest = 0,
          compressionType = DefaultCompression,
          originalPrompt = example_prompt, dietPrompt = Some example_prompt,
          openai = OpenAIApi ()\<rparr>"
proof -
  have "prompt (store_with_prompt (JStr []) 0) = JStr []"
    and "model (store_with_prompt (JStr []) 0) \<noteq> JUndefined"
    and "model_error example_lib (model (store_with_prompt (JStr []) 0)) = None"
    by (simp_all add: store_with_prompt_def example_lib_def)
  with construct_default [where h = "store_with_prompt (JStr [])" and req = 0
      and lib = example_lib and sw = example_stopwords and cfg = "()" and p = "[]"]
  show ?thesis
    by (simp add: example_prompt_def store_with_prompt_def)
qed

text \<open>
  C7. On "Do not go" the contraction step writes "don't go", apostrophe included, and the
  output of the whole compression holds no apostrophe, whatever the stopword array: the
  punctuation step comes after the contraction step and removes it.
\<close>

theorem do_not_go_loses_apostrophe:
  "replace_do_not ''Do not go'' = ''don'' @ [CHR 0x27] @ ''t go'' \<and>
   CHR 0x27 \<notin> set (compressPromptDefault sw ''Do not go'')"
proof
  show "replace_do_not ''Do not go'' = ''don'' @ [CHR 0x27] @ ''t go''"
    by (simp add: DO_NOT_def DONT_def canonicalize_def char_of_eq_iff)
  have "array_includes PUNCTUATION [CHR 0x27]"
    by (simp add: array_includes_def PUNCTUATION_def)
  then show "CHR 0x27 \<notin> set (compressPromptDefault sw ''Do not go'')"
    by (rule no_punctuation_left)
qed

theorem do_not_go_loses_apostrophe_witness:
  "compressPromptDefault example_stopwords ''Do not go'' = ''dont go'' \<and>
   CHR 0x27 \<notin> set (compressPromptDefault example_stopwords ''Do not go'')"
  using do_not_go_loses_apostrophe [of example_stopwords]
  by (simp add: example_do_not_go)

text \<open>
  C9. After a successful construction with the default strategy both sides hold the same
  request object, so both \<open>getPrompt()\<close> return the compressed prompt, and the two sides'
  \<open>tokensCount()\<close> and \<open>estimatedPromptCost()\<close> agree.
\<close>

theorem both_sides_same_request:
  assumes "new_DietPromptCompletion lib sw cfg req DefaultCompression h = (Inr d, h')"
    and "prompt (h req) = JStr p"
  shows "\<exists>dp. dietPrompt d = Some dp \<and>
           request (originalPrompt d) = request dp \<and>
           getPrompt h' (originalPrompt d) = JStr (compressPromptDefault sw p) \<and>
           getPrompt h' dp = JStr (compressPromptDefault sw p) \<and>
           fst (tokensCount lib h' (originalPrompt d)) = fst (tokensCount lib h' dp) \<and>
           estimatedPromptCost h' (originalPrompt d) = estimatedPromptCost h' dp"
proof -
  from assms(1) obtain q where q: "prompt (h req) = JStr q" "model (h req) \<noteq> JUndefined"
    "model_error lib (model (h req)) = None"
    by (rule construct_ok_cases)
  with assms(2) have "q = p" by simp
  with assms(1) q construct_default [where h = h and req = req and p = q and lib = lib
      and sw = sw and cfg = cfg]
  show ?thesis
    by (auto simp: getPrompt_def)
qed

theorem both_sides_same_request_witness:
  "dietPrompt (projr (fst (new_DietPromptCompletion example_lib example_stopwords () 0
      DefaultCompression example_store))) = Some example_prompt \<and>
   getPrompt
     (snd (new_DietPromptCompletion example_lib example_stopwords () 0
        DefaultCompression example_store))
     (originalPrompt (projr (fst (new_DietPromptCompletion example_lib example_stopwords () 0
        DefaultCompression example_store)))) =
   JStr ''Hey example request test DietPrompt'' \<and>
   getPrompt
     (snd (new_DietPromptCompletion example_lib example_stopwords () 0
        DefaultCompression example_store))
     example_prompt =
   JStr ''Hey example request test DietPrompt''"
proof -
  have "prompt (example_store 0) =
      JStr ''Hey, this is an example request to test out DietPrompt.''"
    by (simp add: example_store_def example_request_def)
  from both_sides_same_request [OF example_construct_default this] show ?thesis
    by (auto simp: example_construct_default example_compressed)
qed

text \<open>
  C10. From the same object and store, \<open>tokens()\<close> returns what \<open>encode\<close> returns for the
  prompt, and \<open>tokensCount()\<close> returns the length of that sequence (or the same error);
  both leave the object in the same state.
\<close>

theorem tokensCount_length_of_tokens:
  "fst (tokens lib h this) =
     lib_encode lib (tiktokenEncoding this) (prompt (h (request this))) \<and>
   fst (tokensCount lib h this) = map_sum id length (fst (tokens lib h this)) \<and>
   snd (tokensCount lib h this) = snd (tokens lib h this)"
  by (simp add: tokensCount_def tokens_def split: sum.split)

theorem tokensCount_length_of_tokens_witness:
  "fst (tokens example_lib example_store example_prompt) =
     Inr [4, 4, 2, 2, 7, 7, 2, 4, 3, 11] \<and>
   fst (tokensCount example_lib example_store example_prompt) = Inr 10"
  using tokensCount_length_of_tokens [of example_lib example_store example_prompt]
  by (simp add: example_tokens)

end
